theory Spec2Isabelle
  imports Complex_Main
begin

section \<open>Numbers of the evaluator script\<close>

text \<open>
  The evaluator script of the notebook (the text bound to \<open>custom_script\<close>) is
  JavaScript. Its numbers are modelled by their exact real value, together with the three
  values that JavaScript arithmetic produces outside the reals: the two infinities
  (a division of a non-zero number by zero) and \<open>NaN\<close> (\<open>0/0\<close>, \<open>Infinity - Infinity\<close>,
  \<open>0 * Infinity\<close>, and every arithmetic use of \<open>undefined\<close>). Rounding of the binary
  representation and the sign of zero are not modelled: a finite result is the exact result,
  and a division by zero takes the sign of the numerator.
\<close>

datatype jsnum = Fin real | PInf | NInf | NaN

instantiation jsnum :: "{uminus, plus, minus, times, divide, ord}"
begin

fun uminus_jsnum :: "jsnum \<Rightarrow> jsnum" where
  "- Fin a = Fin (- a)"
| "- PInf = NInf"
| "- NInf = PInf"
| "- NaN = NaN"

fun plus_jsnum :: "jsnum \<Rightarrow> jsnum \<Rightarrow> jsnum" where
  "Fin a + Fin b = Fin (a + b)"
| "Fin a + PInf = PInf"
| "Fin a + NInf = NInf"
| "Fin a + NaN = NaN"
| "PInf + Fin b = PInf"
| "PInf + PInf = PInf"
| "PInf + NInf = NaN"
| "PInf + NaN = NaN"
| "NInf + Fin b = NInf"
| "NInf + PInf = NaN"
| "NInf + NInf = NInf"
| "NInf + NaN = NaN"
| "NaN + y = NaN"

definition minus_jsnum :: "jsnum \<Rightarrow> jsnum \<Rightarrow> jsnum" where
  "x - y = x + (- y :: jsnum)"

fun times_jsnum :: "jsnum \<Rightarrow> jsnum \<Rightarrow> jsnum" where
  "Fin a * Fin b = Fin (a * b)"
| "Fin a * PInf = (if a = 0 then NaN else if 0 < a then PInf else NInf)"
| "Fin a * NInf = (if a = 0 then NaN else if 0 < a then NInf else PInf)"
| "Fin a * NaN = NaN"
| "PInf * Fin b = (if b = 0 then NaN else if 0 < b then PInf else NInf)"
| "PInf * PInf = PInf"
| "PInf * NInf = NInf"
| "PInf * NaN = NaN"
| "NInf * Fin b = (if b = 0 then NaN else if 0 < b then NInf else PInf)"
| "NInf * PInf = NInf"
| "NInf * NInf = PInf"
| "NInf * NaN = NaN"
| "NaN * y = NaN"

fun divide_jsnum :: "jsnum \<Rightarrow> jsnum \<Rightarrow> jsnum" where
  "divide_jsnum (Fin a) (Fin b) =
     (if b = 0 then (if a = 0 then NaN else if 0 < a then PInf else NInf)
      else Fin (a / b))"
| "divide_jsnum (Fin a) PInf = Fin 0"
| "divide_jsnum (Fin a) NInf = Fin 0"
| "divide_jsnum (Fin a) NaN = NaN"
| "divide_jsnum PInf (Fin b) = (if 0 \<le> b then PInf else NInf)"
| "divide_jsnum PInf PInf = NaN"
| "divide_jsnum PInf NInf = NaN"
| "divide_jsnum PInf NaN = NaN"
| "divide_jsnum NInf (Fin b) = (if 0 \<le> b then NInf else PInf)"
| "divide_jsnum NInf PInf = NaN"
| "divide_jsnum NInf NInf = NaN"
| "divide_jsnum NInf NaN = NaN"
| "divide_jsnum NaN y = NaN"

fun less_jsnum :: "jsnum \<Rightarrow> jsnum \<Rightarrow> bool" where
  "Fin a < Fin b = (a < b)"
| "Fin a < PInf = True"
| "Fin a < NInf = False"
| "Fin a < NaN = False"
| "PInf < y = False"
| "NInf < Fin b = True"
| "NInf < PInf = True"
| "NInf < NInf = False"
| "NInf < NaN = False"
| "NaN < y = False"

fun less_eq_jsnum :: "jsnum \<Rightarrow> jsnum \<Rightarrow> bool" where
  "Fin a \<le> Fin b = (a \<le> b)"
| "Fin a \<le> PInf = True"
| "Fin a \<le> NInf = False"
| "Fin a \<le> NaN = False"
| "PInf \<le> Fin b = False"
| "PInf \<le> PInf = True"
| "PInf \<le> NInf = False"
| "PInf \<le> NaN = False"
| "NInf \<le> Fin b = True"
| "NInf \<le> PInf = True"
| "NInf \<le> NInf = True"
| "NInf \<le> NaN = False"
| "NaN \<le> y = False"

instance ..

end

instantiation jsnum :: inverse
begin

definition inverse_jsnum :: "jsnum \<Rightarrow> jsnum" where
  "inverse x = divide (Fin 1) (x :: jsnum)"

instance ..

end

text \<open>
  JavaScript's \<open>a > b\<close> and \<open>a >= b\<close> are \<open>b < a\<close> and \<open>b \<le> a\<close> above: each is
  false as soon as one side is \<open>NaN\<close>, so \<open>\<not> a < b\<close> is not \<open>b \<le> a\<close>.
  \<open>strict_eq\<close> is \<open>===\<close> on two numbers (\<open>NaN === NaN\<close> is false), and \<open>toNumber\<close>
  is the conversion that arithmetic and comparison apply to a value that is either a number
  or \<open>undefined\<close> (\<open>None\<close>).
\<close>

definition strict_eq :: "jsnum \<Rightarrow> jsnum \<Rightarrow> bool" where
  "strict_eq x y = (x = y \<and> x \<noteq> NaN)"

fun toNumber :: "jsnum option \<Rightarrow> jsnum" where
  "toNumber None = NaN"
| "toNumber (Some x) = x"

text \<open>\<open>xs[i]\<close> read as a number: an index past the end gives \<open>undefined\<close>, hence \<open>NaN\<close>.\<close>

definition at_index :: "jsnum list \<Rightarrow> nat \<Rightarrow> jsnum" where
  "at_index xs i = toNumber (if i < length xs then Some (xs ! i) else None)"

section \<open>The evaluator script\<close>

subsection \<open>Samples and indices\<close>

record sample =
  B02 :: jsnum
  B03 :: jsnum
  B04 :: jsnum
  B05 :: jsnum
  B06 :: jsnum
  B07 :: jsnum
  B08 :: jsnum
  B8A :: jsnum
  B09 :: jsnum
  B11 :: jsnum

record chl_indices =
  rlh :: jsnum
  mci :: jsnum

record tss_indices =
  b05 :: jsnum

record watermask_indices =
  ndwi :: jsnum

record indices =
  natural :: "jsnum list"
  chl :: chl_indices
  tss :: tss_indices
  watermask :: watermask_indices

text \<open>
  \<open>getIndices\<close>: the script computes every index eagerly, as a number (the comment above it
  speaks of strings evaluated on demand, which this version of the script no longer uses).
  Arithmetic between numeric literals is written on the reals.
\<close>

definition getIndices :: "sample \<Rightarrow> indices" where
  "getIndices sample =
     \<lparr> natural = [Fin 2.5 * B04 sample, Fin 2.5 * B03 sample, Fin 2.5 * B02 sample],
       chl = \<lparr> rlh = B05 sample - B04 sample
                 - (B07 sample - B04 sample * Fin ((0.705 - 0.665) * 1000.0))
                   / Fin ((0.783 - 0.665) * 1000.0),
               mci = B05 sample - Fin ((0.74 - 0.705) / (0.74 - 0.665)) * B04 sample
                 - Fin (1.0 - (0.74 - 0.705) / (0.74 - 0.665)) * B06 sample \<rparr>,
       tss = \<lparr> b05 = B05 sample \<rparr>,
       watermask = \<lparr> ndwi = (B03 sample - B08 sample) / (B03 sample + B08 sample) \<rparr> \<rparr>"

subsection \<open>Blending and opacity\<close>

text \<open>
  \<open>blend\<close> maps over \<open>layer1\<close> with the element and its index; \<open>layer2[index]\<close> past
  the end of \<open>layer2\<close> is \<open>undefined\<close>. In \<open>blend\<close> and \<open>getAlpha\<close> the
  operations are the script's, in the script's order; here each gives the exact result,
  where JavaScript rounds it to a double. \<open>(x / 100) * 100\<close> is therefore \<open>x\<close> here and
  may differ from \<open>x\<close> in the last digit there, and two limits that are adjacent doubles
  have a middle of their own here and none there. The statements about these two functions
  are written with the script's expressions and for limits far apart, so that they do not
  rest on this difference.
\<close>

definition blend :: "jsnum list \<Rightarrow> jsnum list \<Rightarrow> jsnum \<Rightarrow> jsnum \<Rightarrow> jsnum list" where
  "blend layer1 layer2 opacity1 opacity2 =
     map (\<lambda>(num, index). (num / Fin 100) * opacity1 + (at_index layer2 index / Fin 100) * opacity2)
       (zip layer1 [0 ..< length layer1])"

definition getAlpha :: "jsnum \<Rightarrow> jsnum \<Rightarrow> jsnum \<Rightarrow> jsnum" where
  "getAlpha index min' max' =
     (if min' + (max' - min') / Fin 2 < index then Fin 100
      else if index \<le> min' then Fin 0
      else if max' \<le> index then Fin 1
      else Fin 100 * ((index - min' / Fin 2) / (max' - min')))"

text \<open>
  The return statement of \<open>getAlpha\<close> that an input reaches: the tests of \<open>getAlpha\<close>,
  in its order, with a name in place of each returned value.
\<close>

datatype alpha_return = Return_100 | Return_0 | Return_1 | Return_scaled

definition getAlpha_return :: "jsnum \<Rightarrow> jsnum \<Rightarrow> jsnum \<Rightarrow> alpha_return" where
  "getAlpha_return index min' max' =
     (if min' + (max' - min') / Fin 2 < index then Return_100
      else if index \<le> min' then Return_0
      else if max' \<le> index then Return_1
      else Return_scaled)"

subsection \<open>Colour ramps\<close>

text \<open>
  \<open>colorBlend\<close> is a utility of the platform's evaluator: the script calls it and does not
  define it. The functions below take it as the parameter \<open>cb\<close> (the value, the limits and
  the palette go in, a colour comes out), and so do the theorems about them. \<open>getColors\<close>
  is only ever called with the literals \<open>'chl'\<close> and \<open>'tss'\<close>, which are the two
  constructors of \<open>palette\<close>.
\<close>

type_synonym color_blend = "jsnum \<Rightarrow> jsnum list \<Rightarrow> jsnum list list \<Rightarrow> jsnum list"

datatype palette = Chl | Tss

fun getColors :: "color_blend \<Rightarrow> palette \<Rightarrow> jsnum \<Rightarrow> jsnum \<Rightarrow> jsnum \<Rightarrow> jsnum list" where
  "getColors cb Chl index min' max' =
     cb index
       [min', min' + (max' - min') / Fin 3, (min' + max') / Fin 2, max' - (max' - min') / Fin 3, max']
       [[Fin 0.0034, Fin 0.0142, Fin 0.163],
        [Fin 0, Fin 0.416, Fin 0.306],
        [Fin 0.486, Fin 0.98, Fin 0],
        [Fin 0.9465, Fin 0.8431, Fin 0.1048],
        [Fin 1, Fin 0, Fin 0]]"
| "getColors cb Tss index min' max' =
     cb index
       [min', max']
       [[Fin 0.961, Fin 0.871, Fin 0.702],
        [Fin 0.396, Fin 0.263, Fin 0.129]]"

subsection \<open>Cloud and water tests\<close>

text \<open>
  \<open>isWater\<close> is declared with five parameters and called by \<open>getValue\<close> with four
  arguments, so its parameters receive values of other kinds than their names say.
  \<open>jsval\<close> has the kinds of value that reach them: a number, an array of strings, a sample
  and the \<open>watermask\<close> object of \<open>getIndices\<close>. None of them is \<open>undefined\<close> or
  \<open>null\<close>, so reading a property of a \<open>jsval\<close> never throws: a property the value does
  not have reads as \<open>undefined\<close> (\<open>None\<close>).
\<close>

datatype jsval =
    Number jsnum
  | Strings "string list"
  | SampleObj sample
  | WatermaskObj watermask_indices

text \<open>\<open>v.B03\<close> and the other bands: \<open>band B03 v\<close>.\<close>

fun band :: "(sample \<Rightarrow> jsnum) \<Rightarrow> jsval \<Rightarrow> jsnum option" where
  "band b (SampleObj s) = Some (b s)"
| "band b (Number n) = None"
| "band b (Strings xs) = None"
| "band b (WatermaskObj w) = None"

text \<open>\<open>v.ndwi\<close>\<close>

fun ndwi_of :: "jsval \<Rightarrow> jsnum option" where
  "ndwi_of (WatermaskObj w) = Some (ndwi w)"
| "ndwi_of (Number n) = None"
| "ndwi_of (Strings xs) = None"
| "ndwi_of (SampleObj s) = None"

text \<open>\<open>v.length\<close>: only the array has one.\<close>

fun length_of :: "jsval \<Rightarrow> jsnum option" where
  "length_of (Strings xs) = Some (Fin (real (length xs)))"
| "length_of (Number n) = None"
| "length_of (SampleObj s) = None"
| "length_of (WatermaskObj w) = None"

text \<open>
  \<open>getEval(s, sample)\<close> returns \<open>eval(s)\<close>. JavaScript's \<open>eval\<close> returns an argument
  that is not a string unchanged, and the script passes it numbers, arrays and
  \<open>undefined\<close> only.
\<close>

definition getEval :: "'a \<Rightarrow> 'a" where
  "getEval s = s"

definition isPureWater :: "jsval \<Rightarrow> bool" where
  "isPureWater sample =
     (toNumber (band B03 sample) < Fin 0.319
      \<and> toNumber (band B8A sample) < Fin 0.166
      \<and> Fin 0.027 \<le> toNumber (band B03 sample) - toNumber (band B07 sample)
      \<and> toNumber (band B09 sample) - toNumber (band B11 sample) < Fin 0.021)"

definition isCloud :: "jsval \<Rightarrow> jsnum option \<Rightarrow> bool" where
  "isCloud sample limit =
     (let bRatio = (toNumber (band B02 sample) - Fin 0.175) / Fin (0.39 - 0.175)
      in Fin 1 < bRatio
         \<or> (Fin 0 < bRatio
            \<and> toNumber limit
               < (toNumber (band B04 sample) - toNumber (band B06 sample))
                 / (toNumber (band B04 sample) + toNumber (band B06 sample))))"

text \<open>
  The body of the \<open>for\<close> loop of \<open>isWater\<close>, over the elements
  \<open>selectedWatermaskIndices[i]\<close> that remain: a failed test sets \<open>isItWater = false\<close>
  and breaks; a name that is none of the three is skipped.
\<close>

fun isWater_loop :: "jsval \<Rightarrow> jsval \<Rightarrow> string list \<Rightarrow> jsnum \<Rightarrow> jsnum option \<Rightarrow> bool" where
  "isWater_loop sample availableWatermaskIndices [] waterMax cloudMax = True"
| "isWater_loop sample availableWatermaskIndices (wm # rest) waterMax cloudMax =
     (if wm = ''ndwi'' \<and> toNumber (getEval (ndwi_of availableWatermaskIndices)) < waterMax
      then False
      else if wm = ''hol'' \<and> \<not> isPureWater sample
      then False
      else if wm = ''bcy'' \<and> isCloud sample cloudMax
      then False
      else isWater_loop sample availableWatermaskIndices rest waterMax cloudMax)"

text \<open>
  \<open>isWater\<close>. When \<open>selectedWatermaskIndices\<close> is not an array its \<open>length\<close> is
  \<open>undefined\<close>: \<open>undefined === 0\<close> is false, the loop test \<open>0 < undefined\<close> is false,
  the body never runs and \<open>isItWater\<close> is returned as initialised.
\<close>

fun isWater :: "jsval \<Rightarrow> jsval \<Rightarrow> jsval \<Rightarrow> jsnum \<Rightarrow> jsnum option \<Rightarrow> bool" where
  "isWater sample availableWatermaskIndices (Strings selected) waterMax cloudMax =
     (if strict_eq (toNumber (length_of (Strings selected))) (Fin 0) then True
      else isWater_loop sample availableWatermaskIndices selected waterMax cloudMax)"
| "isWater sample availableWatermaskIndices (Number n) waterMax cloudMax = True"
| "isWater sample availableWatermaskIndices (SampleObj s) waterMax cloudMax = True"
| "isWater sample availableWatermaskIndices (WatermaskObj w) waterMax cloudMax = True"

subsection \<open>Background and foreground\<close>

text \<open>
  A colour parameter is one of the keywords or a custom array. \<open>getStaticColor\<close> divides
  the first three elements by 255; on a keyword these are letters, which convert to
  \<open>NaN\<close>. \<open>parseInt\<close> is the JavaScript builtin, taken as the parameter \<open>parseInt\<close>.
\<close>

datatype colour = Default | Natural | Black | White | Custom "jsnum list"

fun element :: "colour \<Rightarrow> nat \<Rightarrow> jsnum" where
  "element (Custom colorArray) i = at_index colorArray i"
| "element Default i = NaN"
| "element Natural i = NaN"
| "element Black i = NaN"
| "element White i = NaN"

definition getStaticColor :: "colour \<Rightarrow> jsnum list" where
  "getStaticColor colorArray =
     [element colorArray 0 / Fin 255, element colorArray 1 / Fin 255, element colorArray 2 / Fin 255]"

definition getBackground :: "(jsnum \<Rightarrow> jsnum) \<Rightarrow> colour \<Rightarrow> jsnum list \<Rightarrow> jsnum \<Rightarrow> jsnum list" where
  "getBackground parseInt background naturalIndex opacity =
     (let alpha = parseInt (opacity * Fin 100);
          (backgroundLayer, isRgb) =
            (if background = Default \<or> background = Natural then (getEval naturalIndex, True)
             else if background = Black then ([Fin 0, Fin 0, Fin 0], False)
             else if background = White then ([Fin 1, Fin 1, Fin 1], False)
             else (getStaticColor background, False))
      in if isRgb \<or> strict_eq opacity (Fin 1) then backgroundLayer
         else blend backgroundLayer (getEval naturalIndex) alpha (Fin 100 - alpha))"

definition getForeground ::
  "(jsnum \<Rightarrow> jsnum) \<Rightarrow> colour \<Rightarrow> jsnum list \<Rightarrow> jsnum list \<Rightarrow> jsnum \<Rightarrow> jsnum list" where
  "getForeground parseInt foreground backgroundLayer naturalIndex opacity =
     (let alpha = parseInt (opacity * Fin 100);
          layer = (if foreground = Natural then getEval naturalIndex
                   else getStaticColor foreground)
      in if strict_eq opacity (Fin 1) then layer
         else blend layer backgroundLayer alpha (Fin 100 - alpha))"

subsection \<open>Parameters\<close>

text \<open>
  \<open>chlIndex\<close> and \<open>tssIndex\<close> name one of the indices of \<open>getIndices\<close>, or are
  \<open>'default'\<close>, or \<open>null\<close> (\<open>None\<close>).
\<close>

datatype chl_algorithm = Chl_default | Chl_rlh | Chl_mci

datatype tss_algorithm = Tss_default | Tss_b05

record params =
  chlIndex :: "chl_algorithm option"
  tssIndex :: "tss_algorithm option"
  watermaskIndices :: "string list"
  chlMin :: jsnum
  chlMax :: jsnum
  tssMin :: jsnum
  tssMax :: jsnum
  waterMax :: jsnum
  cloudMax :: jsnum
  foreground :: colour
  foregroundOpacity :: jsnum
  background :: colour
  backgroundOpacity :: jsnum

definition PARAMS :: params where
  "PARAMS =
     \<lparr> chlIndex = Some Chl_default,
       tssIndex = Some Tss_default,
       watermaskIndices = [''ndwi'', ''hol''],
       chlMin = Fin (- 0.005),
       chlMax = Fin 0.05,
       tssMin = Fin 0.075,
       tssMax = Fin 0.185,
       waterMax = Fin 0,
       cloudMax = Fin 0.02,
       foreground = Default,
       foregroundOpacity = Fin 1,
       background = Default,
       backgroundOpacity = Fin 1.0 \<rparr>"

subsection \<open>The value of a pixel\<close>

text \<open>\<open>indices.chl[alg]\<close> and \<open>indices.tss[alg]\<close>, after \<open>'default'\<close> has been replaced.\<close>

fun chl_at :: "chl_indices \<Rightarrow> chl_algorithm \<Rightarrow> jsnum" where
  "chl_at c Chl_rlh = rlh c"
| "chl_at c Chl_mci = mci c"
| "chl_at c Chl_default = NaN"

fun tss_at :: "tss_indices \<Rightarrow> tss_algorithm \<Rightarrow> jsnum" where
  "tss_at t Tss_b05 = b05 t"
| "tss_at t Tss_default = NaN"

text \<open>
  \<open>getValue\<close> returns either a bare layer (the two early returns) or an object with the
  three fields. \<open>chlIndex\<close> and \<open>tssIndex\<close> stay \<open>undefined\<close> (\<open>None\<close>) when the
  parameter is \<open>null\<close>.
\<close>

record pixel_value =
  rgb_value :: "jsnum list"
  chl_index :: "jsnum option"
  sed_index :: "jsnum option"

datatype getValue_result = Layer "jsnum list" | Value pixel_value

text \<open>
  The call of \<open>isWater\<close> in \<open>getValue\<close>, with the four arguments in the positions the
  source gives them: \<open>indices.watermask\<close> for \<open>sample\<close>, \<open>params.watermaskIndices\<close>
  for \<open>availableWatermaskIndices\<close>, \<open>params.waterMax\<close> for
  \<open>selectedWatermaskIndices\<close>, \<open>params.cloudMax\<close> for \<open>waterMax\<close>, and nothing
  (\<open>undefined\<close>) for \<open>cloudMax\<close>.
\<close>

definition getValue_isWater :: "params \<Rightarrow> indices \<Rightarrow> bool" where
  "getValue_isWater params indices =
     isWater (WatermaskObj (watermask indices)) (Strings (watermaskIndices params))
       (Number (waterMax params)) (cloudMax params) None"

definition getValue :: "color_blend \<Rightarrow> (jsnum \<Rightarrow> jsnum) \<Rightarrow> params \<Rightarrow> sample \<Rightarrow> getValue_result" where
  "getValue cb parseInt params sample =
     (let indices = getIndices sample;
          backgroundLayer =
            getBackground parseInt (background params) (natural indices) (backgroundOpacity params)
      in if \<not> getValue_isWater params indices then Layer backgroundLayer
         else if foreground params \<noteq> Default
         then Layer (getForeground parseInt (foreground params) backgroundLayer (natural indices)
                       (foregroundOpacity params))
         else
           (let chlPart =
                  map_option
                    (\<lambda>chl'. let alg = (if chl' = Chl_default then Chl_mci else chl');
                                chlIndex' = getEval (chl_at (chl indices) alg)
                            in (chlIndex', getColors cb Chl chlIndex' (chlMin params) (chlMax params)))
                    (chlIndex params);
                tssPart =
                  map_option
                    (\<lambda>tss'. let alg = (if tss' = Tss_default then Tss_b05 else tss');
                                tssIndex' = getEval (tss_at (tss indices) alg)
                            in (tssIndex',
                                getColors cb Tss tssIndex' (tssMin params) (tssMax params),
                                getAlpha tssIndex' (tssMin params) (tssMax params)))
                    (tssIndex params);
                value =
                  (case (chlPart, tssPart) of
                     (Some (chlIndex', chlLayer), Some (tssIndex', tssLayer, tssAlpha)) \<Rightarrow>
                       blend tssLayer chlLayer tssAlpha (Fin 100 - tssAlpha)
                   | (Some (chlIndex', chlLayer), None) \<Rightarrow> chlLayer
                   | (None, Some (tssIndex', tssLayer, tssAlpha)) \<Rightarrow>
                       blend tssLayer backgroundLayer tssAlpha (Fin 100 - tssAlpha)
                   | (None, None) \<Rightarrow> backgroundLayer);
                foregroundAlpha = parseInt (foregroundOpacity params * Fin 100)
            in Value
                 \<lparr> rgb_value =
                     (if strict_eq (foregroundOpacity params) (Fin 1) then value
                      else blend value backgroundLayer foregroundAlpha (Fin 100 - foregroundAlpha)),
                   chl_index = map_option fst chlPart,
                   sed_index = map_option fst tssPart \<rparr>))"

text \<open>
  \<open>evaluatePixel\<close> reads the three fields of what \<open>getValue\<close> returns; on a bare layer
  (an array) each of them is \<open>undefined\<close>.
\<close>

record pixel_output =
  default' :: "jsnum list option"
  chlorophyllIndex :: "jsnum option list"
  sedimentIndex :: "jsnum option list"

definition evaluatePixel :: "color_blend \<Rightarrow> (jsnum \<Rightarrow> jsnum) \<Rightarrow> sample \<Rightarrow> pixel_output" where
  "evaluatePixel cb parseInt samples =
     (case getValue cb parseInt PARAMS samples of
        Layer layer \<Rightarrow>
          \<lparr> default' = None, chlorophyllIndex = [None], sedimentIndex = [None] \<rparr>
      | Value v \<Rightarrow>
          \<lparr> default' = Some (rgb_value v),
            chlorophyllIndex = [chl_index v],
            sedimentIndex = [sed_index v] \<rparr>)"

text \<open>The outputs that \<open>setup\<close> declares: identifier and number of bands.\<close>

definition setup_output :: "(string \<times> nat) list" where
  "setup_output = [(''default'', 3), (''chlorophyllIndex'', 1), (''sedimentIndex'', 1)]"

subsection \<open>The platform's functions at concrete pixels\<close>

text \<open>
  To evaluate the script at a concrete pixel, \<open>cb\<close> and \<open>parseInt\<close> need values. The
  platform documents \<open>colorBlend(value, limits, colors)\<close> as the linear interpolation of
  the colours between the two limits that enclose the value, and as the first or the last
  colour outside the limits; \<open>colorBlend\<close> below is that function. JavaScript's
  \<open>parseInt\<close> of a number reads the integer at the start of its decimal string:
  \<open>parseInt\<close> below truncates towards zero, which is that integer whenever the string has
  no exponent (the script passes it \<open>100\<close>). Both are used at concrete pixels only; the
  theorems over all samples hold for every \<open>cb\<close> and every \<open>parseInt\<close>.
\<close>

definition interpolate :: "jsnum \<Rightarrow> jsnum list \<Rightarrow> jsnum list \<Rightarrow> jsnum list" where
  "interpolate t c1 c2 = map (\<lambda>(a, b). a + (b - a) * t) (zip c1 c2)"

fun colorBlend_above :: "jsnum \<Rightarrow> jsnum \<Rightarrow> jsnum list \<Rightarrow> jsnum list \<Rightarrow> jsnum list list \<Rightarrow> jsnum list" where
  "colorBlend_above v l c (l' # limits) (c' # colors) =
     (if v \<le> l' then interpolate ((v - l) / (l' - l)) c c'
      else colorBlend_above v l' c' limits colors)"
| "colorBlend_above v l c [] colors = c"
| "colorBlend_above v l c limits [] = c"

fun colorBlend :: color_blend where
  "colorBlend v (l # limits) (c # colors) =
     (if v \<le> l then c else colorBlend_above v l c limits colors)"
| "colorBlend v [] colors = []"
| "colorBlend v limits [] = []"

fun parseInt :: "jsnum \<Rightarrow> jsnum" where
  "parseInt (Fin r) = Fin (of_int (if 0 \<le> r then \<lfloor>r\<rfloor> else \<lceil>r\<rceil>))"
| "parseInt PInf = NaN"
| "parseInt NInf = NaN"
| "parseInt NaN = NaN"

text \<open>
  Three pixels. \<open>land_pixel\<close> is vegetation: its NDWI is negative and it fails the
  pure-water test. \<open>cloud_pixel\<close> is bright in the blue band (a cloud for \<open>isCloud\<close>) and
  passes both water tests. \<open>water_pixel\<close> is turbid water.
\<close>

definition land_pixel :: sample where
  "land_pixel =
     \<lparr> B02 = Fin 0.04, B03 = Fin 0.08, B04 = Fin 0.05, B05 = Fin 0.2, B06 = Fin 0.3,
       B07 = Fin 0.35, B08 = Fin 0.4, B8A = Fin 0.4, B09 = Fin 0.4, B11 = Fin 0.2 \<rparr>"

definition cloud_pixel :: sample where
  "cloud_pixel =
     \<lparr> B02 = Fin 0.5, B03 = Fin 0.3, B04 = Fin 0.2, B05 = Fin 0.2, B06 = Fin 0.1,
       B07 = Fin 0.1, B08 = Fin 0.1, B8A = Fin 0.1, B09 = Fin 0.05, B11 = Fin 0.05 \<rparr>"

definition water_pixel :: sample where
  "water_pixel =
     \<lparr> B02 = Fin 0.06, B03 = Fin 0.1, B04 = Fin 0.08, B05 = Fin 0.1, B06 = Fin 0.04,
       B07 = Fin 0.04, B08 = Fin 0.03, B8A = Fin 0.03, B09 = Fin 0.01, B11 = Fin 0.01 \<rparr>"

section \<open>The notebook\<close>

text \<open>
  The Python cells build one request and hand it to the SDK. The SDK is external: its
  default configuration, its coordinate transformation and its \<open>get_data\<close> are the fields
  of \<open>sdk\<close>. \<open>get_data\<close> acts on the remote service and the local data folder, whose
  state is \<open>'w\<close>; it returns the list of responses or raises an exception \<open>'e\<close>.
  What \<open>getpass\<close> reads are the parameters \<open>client_id\<close> and \<open>client_secret\<close>.
  The cells that draw (the overview map, \<open>plot_image\<close>, \<open>imshow\<close>) bind nothing the
  request depends on and are left out.
\<close>

datatype crs = WGS84 | EPSG nat

datatype bbox = BBox "real \<times> real \<times> real \<times> real" crs

record shconfig =
  sh_client_id :: string
  sh_client_secret :: string
  sh_token_url :: string
  sh_base_url :: string

datatype data_collection = SENTINEL2_L2A | Define_from data_collection string string

datatype mosaicking_order = MOST_RECENT | LEAST_RECENT | LEAST_CC

datatype mime_type = TIFF | PNG | JPG

record input_data =
  data_collection :: data_collection
  time_interval :: "string \<times> string"
  mosaicking_order :: mosaicking_order

record output_response =
  output_id :: string
  response_format :: mime_type

text \<open>\<open>Custom_script\<close> is the text of the evaluator script, modelled above.\<close>

datatype evalscript = Custom_script

text \<open>
  The request is what \<open>SentinelHubRequest\<close> is called with: its keyword arguments, in
  the order of the call.
\<close>

datatype argument =
    Evalscript evalscript
  | Input_data "input_data list"
  | Responses "output_response list"
  | Bbox bbox
  | Resolution "nat \<times> nat"
  | Config shconfig
  | Data_folder string

type_synonym request = "(string \<times> argument) list"

record ('w, 'e, 'r) sdk =
  SHConfig :: shconfig
  transform :: "bbox \<Rightarrow> nat \<Rightarrow> bbox"
  get_data :: "request \<Rightarrow> bool \<Rightarrow> 'w \<Rightarrow> ('e + (string \<Rightarrow> 'r option) list) \<times> 'w"

text \<open>The cell that sets the credentials: the value of \<open>config\<close> after it.\<close>

definition cell_config :: "('w, 'e, 'r) sdk \<Rightarrow> string \<Rightarrow> string \<Rightarrow> shconfig" where
  "cell_config sdk client_id client_secret =
     (SHConfig sdk)
       \<lparr> sh_client_id := client_id,
         sh_client_secret := client_secret,
         sh_token_url :=
           ''https://identity.dataspace.copernicus.eu/auth/realms/CDSE/protocol/openid-connect/token'',
         sh_base_url := ''https://sh.dataspace.copernicus.eu'' \<rparr>"

text \<open>
  The cell of the area of interest: the values of \<open>taihu_lake_bbox\<close>,
  \<open>time_interval\<close> and \<open>resolution\<close> after it.
\<close>

definition cell_area :: "('w, 'e, 'r) sdk \<Rightarrow> bbox \<times> (string \<times> string) \<times> (nat \<times> nat)" where
  "cell_area sdk =
     (transform sdk (BBox (119.7301, 30.919636, 120.684429, 31.661304) WGS84) 3035,
      (''2023-09-01'', ''2023-09-30''),
      (100, 100))"

text \<open>The cell that builds the request; it binds \<open>time_interval\<close> again.\<close>

definition cell_request :: "evalscript \<Rightarrow> shconfig \<Rightarrow> bbox \<Rightarrow> nat \<times> nat \<Rightarrow> request" where
  "cell_request custom_script config taihu_lake_bbox resolution =
     (let time_interval = (''2023-09-01'', ''2023-09-30'')
      in [(''evalscript'', Evalscript custom_script),
          (''input_data'',
             Input_data
               [\<lparr> data_collection = Define_from SENTINEL2_L2A ''s2l2a'' (sh_base_url config),
                   time_interval = time_interval,
                   mosaicking_order = LEAST_CC \<rparr>]),
          (''responses'',
             Responses
               [\<lparr> output_id = ''default'', response_format = TIFF \<rparr>,
                \<lparr> output_id = ''chlorophyllIndex'', response_format = TIFF \<rparr>,
                \<lparr> output_id = ''sedimentIndex'', response_format = TIFF \<rparr>]),
          (''bbox'', Bbox taihu_lake_bbox),
          (''resolution'', Resolution resolution),
          (''config'', Config config),
          (''data_folder'', Data_folder ''./data'')])"

text \<open>The value of \<open>request_UWQV\<close> when the cells have run in order.\<close>

definition request_UWQV :: "('w, 'e, 'r) sdk \<Rightarrow> string \<Rightarrow> string \<Rightarrow> request" where
  "request_UWQV sdk client_id client_secret =
     (let config = cell_config sdk client_id client_secret;
          (taihu_lake_bbox, time_interval, resolution) = cell_area sdk;
          custom_script = Custom_script
      in cell_request custom_script config taihu_lake_bbox resolution)"

text \<open>
  The rest of the notebook: \<open>request_UWQV.get_data(save_data=True)[0]\<close>, then the three
  images read from \<open>download_data\<close>. An exception of \<open>get_data\<close> is \<open>Raised\<close>; the index
  and the dictionary reads raise Python's own exceptions.
\<close>

datatype 'e exception = Raised 'e | IndexError | KeyError string

record 'r images =
  img :: 'r
  chlorophyll_index :: 'r
  sediment_index :: 'r

definition lookup :: "(string \<Rightarrow> 'r option) \<Rightarrow> string \<Rightarrow> 'e exception + 'r" where
  "lookup d k = (case d k of None \<Rightarrow> Inl (KeyError k) | Some v \<Rightarrow> Inr v)"

definition read_images :: "(string \<Rightarrow> 'r option) \<Rightarrow> 'e exception + 'r images" where
  "read_images download_data =
     (case lookup download_data ''default.tif'' of
        Inl e \<Rightarrow> Inl e
      | Inr i \<Rightarrow>
          (case lookup download_data ''chlorophyllIndex.tif'' of
             Inl e \<Rightarrow> Inl e
           | Inr c \<Rightarrow>
               (case lookup download_data ''sedimentIndex.tif'' of
                  Inl e \<Rightarrow> Inl e
                | Inr s \<Rightarrow> Inr \<lparr> img = i, chlorophyll_index = c, sediment_index = s \<rparr>)))"

definition notebook ::
  "('w, 'e, 'r) sdk \<Rightarrow> string \<Rightarrow> string \<Rightarrow> 'w \<Rightarrow> ('e exception + 'r images) \<times> 'w" where
  "notebook sdk client_id client_secret w =
     (case get_data sdk (request_UWQV sdk client_id client_secret) True w of
        (Inl e, w') \<Rightarrow> (Inl (Raised e), w')
      | (Inr [], w') \<Rightarrow> (Inl IndexError, w')
      | (Inr (download_data # rest), w') \<Rightarrow> (read_images download_data, w'))"

text \<open>
  An SDK whose service fails every call, and one that answers every call with the three
  images; the state of each counts the calls of \<open>get_data\<close>.
\<close>

definition failing_sdk :: "(nat, string, nat) sdk" where
  "failing_sdk =
     \<lparr> SHConfig = \<lparr> sh_client_id = [], sh_client_secret = [], sh_token_url = [], sh_base_url = [] \<rparr>,
       transform = (\<lambda>b code. case b of BBox c old \<Rightarrow> BBox c (EPSG code)),
       get_data = (\<lambda>r save_data calls. (Inl ''quota exceeded'', Suc calls)) \<rparr>"

definition answering_sdk :: "(nat, string, nat) sdk" where
  "answering_sdk =
     \<lparr> SHConfig = \<lparr> sh_client_id = [], sh_client_secret = [], sh_token_url = [], sh_base_url = [] \<rparr>,
       transform = (\<lambda>b code. case b of BBox c old \<Rightarrow> BBox c (EPSG code)),
       get_data =
         (\<lambda>r save_data calls.
            (Inr [[''default.tif'' \<mapsto> 0, ''chlorophyllIndex.tif'' \<mapsto> 1, ''sedimentIndex.tif'' \<mapsto> 2]],
             Suc calls)) \<rparr>"

section \<open>What the script computes under the notebook's parameters\<close>

text \<open>
  As \<open>getValue\<close> calls it, \<open>isWater\<close> receives the number \<open>params.waterMax\<close> where
  it expects the selected indices. A number has no \<open>length\<close>, so the loop over the selected
  indices never runs and the answer is true for every sample.
\<close>

lemma getValue_isWater_PARAMS: "getValue_isWater PARAMS i"
  by (simp add: getValue_isWater_def PARAMS_def)

lemma getValue_PARAMS:
  "getValue cb pI PARAMS s =
     Value \<lparr> rgb_value =
               blend (getColors cb Tss (B05 s) (tssMin PARAMS) (tssMax PARAMS))
                 (getColors cb Chl (mci (chl (getIndices s))) (chlMin PARAMS) (chlMax PARAMS))
                 (getAlpha (B05 s) (tssMin PARAMS) (tssMax PARAMS))
                 (Fin 100 - getAlpha (B05 s) (tssMin PARAMS) (tssMax PARAMS)),
             chl_index = Some (mci (chl (getIndices s))),
             sed_index = Some (B05 s) \<rparr>"
proof -
  have fg: "foreground PARAMS = Default" "chlIndex PARAMS = Some Chl_default"
    "tssIndex PARAMS = Some Tss_default" "strict_eq (foregroundOpacity PARAMS) (Fin 1)"
    by (simp_all add: PARAMS_def strict_eq_def)
  have b5: "b05 (tss (getIndices s)) = B05 s"
    by (simp add: getIndices_def)
  show ?thesis
    unfolding getValue_def Let_def
    by (simp add: getValue_isWater_PARAMS fg getEval_def b5 del: getColors.simps)
qed

lemma evaluatePixel_PARAMS:
  "evaluatePixel cb pI s =
     \<lparr> default' =
         Some (blend (getColors cb Tss (B05 s) (tssMin PARAMS) (tssMax PARAMS))
                 (getColors cb Chl (mci (chl (getIndices s))) (chlMin PARAMS) (chlMax PARAMS))
                 (getAlpha (B05 s) (tssMin PARAMS) (tssMax PARAMS))
                 (Fin 100 - getAlpha (B05 s) (tssMin PARAMS) (tssMax PARAMS))),
       chlorophyllIndex = [Some (mci (chl (getIndices s)))],
       sedimentIndex = [Some (B05 s)] \<rparr>"
  by (simp add: evaluatePixel_def getValue_PARAMS)

lemma mci_formula:
  "mci (chl (getIndices s)) =
     B05 s - Fin ((0.74 - 0.705) / (0.74 - 0.665)) * B04 s
           - Fin ((0.705 - 0.665) / (0.74 - 0.665)) * B06 s"
  by (simp add: getIndices_def)

lemmas pixel_eval =
  evaluatePixel_PARAMS PARAMS_def getIndices_def getAlpha_def blend_def minus_jsnum_def
  at_index_def interpolate_def

subsection \<open>The chlorophyll index\<close>

text \<open>
  C3. For every sample on which \<open>isWater\<close>, as \<open>getValue\<close> calls it, returns true, the
  \<open>chlorophyllIndex\<close> output of \<open>evaluatePixel\<close> is the maximum chlorophyll index:
  \<open>B05\<close> minus the line through \<open>B04\<close> (665 nm) and \<open>B06\<close> (740 nm) taken at 705 nm,
  \<open>B05 - ((0.74-0.705)/(0.74-0.665)) * B04 - ((0.705-0.665)/(0.74-0.665)) * B06\<close>. The two
  weights are positive and add up to one, and the band nearer to 705 nm (\<open>B06\<close>) has the
  larger one. This holds for every \<open>colorBlend\<close> and \<open>parseInt\<close>.
\<close>

theorem chlorophyllIndex_is_mci:
  "getValue_isWater PARAMS (getIndices s) \<Longrightarrow>
   chlorophyllIndex (evaluatePixel cb pI s) =
     [Some (B05 s - Fin ((0.74 - 0.705) / (0.74 - 0.665)) * B04 s
                  - Fin ((0.705 - 0.665) / (0.74 - 0.665)) * B06 s)]
   \<and> (0.74 - 0.705) / (0.74 - 0.665) + (0.705 - 0.665) / (0.74 - 0.665) = (1::real)
   \<and> (0::real) < (0.74 - 0.705) / (0.74 - 0.665)
   \<and> (0.74 - 0.705) / (0.74 - 0.665) < (0.705 - 0.665) / (0.74 - 0.665 :: real)"
  by (simp add: evaluatePixel_PARAMS mci_formula)

theorem chlorophyllIndex_is_mci_witness:
  "getValue_isWater PARAMS (getIndices water_pixel)
   \<and> chlorophyllIndex (evaluatePixel colorBlend parseInt water_pixel) = [Some (Fin (31 / 750))]"
  using chlorophyllIndex_is_mci [of water_pixel colorBlend parseInt]
  by (simp add: getValue_isWater_PARAMS water_pixel_def minus_jsnum_def)

text \<open>
  C4. The claim is that \<open>rlh\<close> of \<open>getIndices\<close> is the reflectance line height
  \<open>B05 - (B04 + (B07 - B04) * ((0.705-0.665)/(0.783-0.665)))\<close>. The script's expression
  is \<open>B05 - B04 - (B07 - B04 * 40) / 118\<close>: the factor 40 multiplies \<open>B04\<close> alone and not
  the difference \<open>B07 - B04\<close>. At \<open>land_pixel\<close> the script gives \<open>387/2360\<close> and the
  line height is \<open>57/1180\<close>.
\<close>

theorem rlh_differs_from_line_height:
  "rlh (chl (getIndices land_pixel)) = Fin (387 / 2360)
   \<and> B05 land_pixel
       - (B04 land_pixel
          + (B07 land_pixel - B04 land_pixel) * Fin ((0.705 - 0.665) / (0.783 - 0.665)))
     = Fin (57 / 1180)
   \<and> rlh (chl (getIndices land_pixel))
     \<noteq> B05 land_pixel
         - (B04 land_pixel
            + (B07 land_pixel - B04 land_pixel) * Fin ((0.705 - 0.665) / (0.783 - 0.665)))"
  by (simp add: getIndices_def land_pixel_def minus_jsnum_def)

subsection \<open>The sediment index\<close>

text \<open>
  C5. For every sample on which \<open>isWater\<close>, as \<open>getValue\<close> calls it, returns true, the
  \<open>sedimentIndex\<close> output of \<open>evaluatePixel\<close> is the sample's \<open>B05\<close>, unchanged.
\<close>

theorem sedimentIndex_is_B05:
  "getValue_isWater PARAMS (getIndices s) \<Longrightarrow>
   sedimentIndex (evaluatePixel cb pI s) = [Some (B05 s)]"
  by (simp add: evaluatePixel_PARAMS)

theorem sedimentIndex_is_B05_witness:
  "getValue_isWater PARAMS (getIndices water_pixel)
   \<and> sedimentIndex (evaluatePixel colorBlend parseInt water_pixel) = [Some (Fin 0.1)]"
  using sedimentIndex_is_B05 [of water_pixel colorBlend parseInt]
  by (simp add: getValue_isWater_PARAMS water_pixel_def)

subsection \<open>Blending\<close>

lemma blend_zip:
  assumes "length layer1 = length layer2"
  shows "blend layer1 layer2 o1 o2 =
     map (\<lambda>(x, y). (x / Fin 100) * o1 + (y / Fin 100) * o2) (zip layer1 layer2)"
proof (rule nth_equalityI)
  show "length (blend layer1 layer2 o1 o2) =
    length (map (\<lambda>(x, y). (x / Fin 100) * o1 + (y / Fin 100) * o2) (zip layer1 layer2))"
    using assms by (simp add: blend_def)
next
  fix i assume "i < length (blend layer1 layer2 o1 o2)"
  then have i: "i < length layer1" by (simp add: blend_def)
  with assms show "blend layer1 layer2 o1 o2 ! i =
    map (\<lambda>(x, y). (x / Fin 100) * o1 + (y / Fin 100) * o2) (zip layer1 layer2) ! i"
    by (simp add: blend_def at_index_def)
qed

lemma zip_weight_100_0:
  "length xs = length ys \<Longrightarrow>
   map (\<lambda>(x, y). (x / Fin 100) * Fin 100 + (y / Fin 100) * Fin 0) (zip (map Fin xs) (map Fin ys))
     = map (\<lambda>x. (Fin x / Fin 100) * Fin 100) xs"
  by (induction xs ys rule: list_induct2) simp_all

lemma zip_weight_0_100:
  "length xs = length ys \<Longrightarrow>
   map (\<lambda>(x, y). (x / Fin 100) * Fin 0 + (y / Fin 100) * Fin 100) (zip (map Fin xs) (map Fin ys))
     = map (\<lambda>y. (Fin y / Fin 100) * Fin 100) ys"
  by (induction xs ys rule: list_induct2) simp_all

text \<open>
  C6, as the script has it. For two layers of equal length, \<open>blend\<close> pairs the elements
  by their index and computes \<open>(layer1[i] / 100) * opacity1 + (layer2[i] / 100) * opacity2\<close>:
  each element is divided by 100 first and weighted afterwards. On layers of finite
  numbers, the opacities \<open>(100, 0)\<close> give \<open>(layer1[i] / 100) * 100\<close>, whatever
  \<open>layer2\<close> holds, and \<open>(0, 100)\<close> give \<open>(layer2[i] / 100) * 100\<close>, whatever
  \<open>layer1\<close> holds. The right-hand sides are the script's own operations in the script's
  order, so the three equations do not depend on how the operations round.
\<close>

theorem blend_elementwise:
  assumes "length layer1 = length layer2" and "length xs = length ys"
  shows "blend layer1 layer2 opacity1 opacity2 =
           map (\<lambda>(x, y). (x / Fin 100) * opacity1 + (y / Fin 100) * opacity2) (zip layer1 layer2)
         \<and> blend (map Fin xs) (map Fin ys) (Fin 100) (Fin 0)
             = map (\<lambda>x. (Fin x / Fin 100) * Fin 100) xs
         \<and> blend (map Fin xs) (map Fin ys) (Fin 0) (Fin 100)
             = map (\<lambda>y. (Fin y / Fin 100) * Fin 100) ys"
proof -
  have l: "length (map Fin xs) = length (map Fin ys)"
    using assms(2) by simp
  have 2: "blend (map Fin xs) (map Fin ys) (Fin 100) (Fin 0)
             = map (\<lambda>x. (Fin x / Fin 100) * Fin 100) xs"
    using assms(2) by (simp only: blend_zip [OF l] zip_weight_100_0)
  have 3: "blend (map Fin xs) (map Fin ys) (Fin 0) (Fin 100)
             = map (\<lambda>y. (Fin y / Fin 100) * Fin 100) ys"
    using assms(2) by (simp only: blend_zip [OF l] zip_weight_0_100)
  from blend_zip [OF assms(1)] 2 3 show ?thesis
    by simp
qed

theorem blend_elementwise_witness:
  "length [Fin 100, PInf, Fin 0] = length [Fin 200, Fin 1, NaN]
   \<and> length [50, 1, 0, 0.25 :: real] = length [0.7, 3, 9, 0.1 :: real]
   \<and> blend [Fin 100, PInf, Fin 0] [Fin 200, Fin 1, NaN] (Fin 25) (Fin 100 - Fin 25)
       = [Fin 175, PInf, NaN]
   \<and> blend (map Fin [50, 1, 0, 0.25]) (map Fin [0.7, 3, 9, 0.1]) (Fin 100) (Fin 0)
       = [Fin 50, Fin 1, Fin 0, Fin 0.25]
   \<and> blend (map Fin [0.7, 3, 9, 0.1]) (map Fin [50, 1, 0, 0.25]) (Fin 0) (Fin 100)
       = [Fin 50, Fin 1, Fin 0, Fin 0.25]"
  using blend_elementwise [of "[Fin 100, PInf, Fin 0]" "[Fin 200, Fin 1, NaN]"
      "[50, 1, 0, 0.25]" "[0.7, 3, 9, 0.1]" "Fin 25" "Fin 100 - Fin 25"]
    blend_elementwise [of "[Fin 100, PInf, Fin 0]" "[Fin 200, Fin 1, NaN]"
      "[0.7, 3, 9, 0.1]" "[50, 1, 0, 0.25]" "Fin 25" "Fin 100 - Fin 25"]
  by (simp add: minus_jsnum_def)

text \<open>
  C6, as the claim has it, says that for every two layers of equal length the opacities
  \<open>(100, 0)\<close> return \<open>layer1\<close>. An infinite element of \<open>layer2\<close> contradicts it:
  \<open>(Infinity / 100) * 0\<close> is \<open>NaN\<close>, and so is the sum.
\<close>

theorem blend_infinite_layer:
  "length [Fin 1] = length [PInf]
   \<and> blend [Fin 1] [PInf] (Fin 100) (Fin 0) = [NaN]
   \<and> blend [Fin 1] [PInf] (Fin 100) (Fin 0) \<noteq> [Fin 1]"
  by (simp add: blend_def at_index_def)

subsection \<open>Opacity of the sediment layer\<close>

lemma getAlpha_by_return:
  "getAlpha index mn mx =
     (case getAlpha_return index mn mx of
        Return_100 \<Rightarrow> Fin 100
      | Return_0 \<Rightarrow> Fin 0
      | Return_1 \<Rightarrow> Fin 1
      | Return_scaled \<Rightarrow> Fin 100 * ((index - mn / Fin 2) / (mx - mn)))"
  by (simp add: getAlpha_def getAlpha_return_def)

lemma getAlpha_tss:
  "getAlpha (Fin x) (tssMin PARAMS) (tssMax PARAMS) =
     Fin (if 0.075 + (0.185 - 0.075) / 2 < x then 100
          else if x \<le> 0.075 then 0
          else 100 * ((x - 0.075 / 2) / (0.185 - 0.075)))"
  by (simp add: getAlpha_def PARAMS_def minus_jsnum_def)

lemma return_1_unreachable_tss:
  "getAlpha_return index (tssMin PARAMS) (tssMax PARAMS) \<noteq> Return_1"
  by (cases index) (auto simp add: getAlpha_return_def PARAMS_def minus_jsnum_def)

text \<open>
  C9, as the script has it. With the sediment limits \<open>tssMin = 0.075\<close> and
  \<open>tssMax = 0.185\<close>, for every real index \<open>getAlpha\<close> returns a value in \<open>[0, 100]\<close>:
  \<open>0\<close> exactly when the index is at most the minimum, \<open>100\<close> exactly when it is above
  the middle of the two limits, and \<open>100 * ((index - min/2) / (max - min))\<close> otherwise. With
  these limits no index, finite, infinite or \<open>NaN\<close>, reaches the statement that returns
  \<open>1\<close>: an index of at least \<open>0.185\<close> is above the middle \<open>0.13\<close> by a margin far
  larger than any rounding, and the first test returns \<open>100\<close> for it.
\<close>

theorem getAlpha_sediment:
  "getAlpha (Fin x) (tssMin PARAMS) (tssMax PARAMS) =
     Fin (if 0.075 + (0.185 - 0.075) / 2 < x then 100
          else if x \<le> 0.075 then 0
          else 100 * ((x - 0.075 / 2) / (0.185 - 0.075)))
   \<and> (\<exists>a. getAlpha (Fin x) (tssMin PARAMS) (tssMax PARAMS) = Fin a \<and> 0 \<le> a \<and> a \<le> 100)
   \<and> (getAlpha (Fin x) (tssMin PARAMS) (tssMax PARAMS) = Fin 0) = (x \<le> 0.075)
   \<and> (getAlpha (Fin x) (tssMin PARAMS) (tssMax PARAMS) = Fin 100)
       = (0.075 + (0.185 - 0.075) / 2 < x)
   \<and> getAlpha_return index (tssMin PARAMS) (tssMax PARAMS) \<noteq> Return_1"
proof -
  have r: "\<exists>a. getAlpha (Fin x) (tssMin PARAMS) (tssMax PARAMS) = Fin a \<and> 0 \<le> a \<and> a \<le> 100"
    unfolding getAlpha_tss by (auto simp add: field_simps)
  have z: "(getAlpha (Fin x) (tssMin PARAMS) (tssMax PARAMS) = Fin 0) = (x \<le> 0.075)"
    unfolding getAlpha_tss by (auto simp add: field_simps)
  have h: "(getAlpha (Fin x) (tssMin PARAMS) (tssMax PARAMS) = Fin 100)
       = (0.075 + (0.185 - 0.075) / 2 < x)"
    unfolding getAlpha_tss by (auto simp add: field_simps)
  from r z h getAlpha_tss return_1_unreachable_tss show ?thesis
    by blast
qed

theorem getAlpha_sediment_witness:
  "getAlpha (Fin 0.2) (tssMin PARAMS) (tssMax PARAMS) = Fin 100
   \<and> getAlpha (Fin 0.05) (tssMin PARAMS) (tssMax PARAMS) = Fin 0
   \<and> getAlpha_return (Fin 0.185) (tssMin PARAMS) (tssMax PARAMS) = Return_100"
  using getAlpha_sediment [of "0.2" "Fin 0.185"] getAlpha_sediment [of "0.05" "Fin 0.185"]
  by (simp add: getAlpha_return_def PARAMS_def minus_jsnum_def)

text \<open>
  C9, as the claim has it, says that the statement returning \<open>1\<close> is unreachable
  whenever \<open>min < max\<close>. With \<open>min = -Infinity\<close> and \<open>max = 0\<close> the middle
  \<open>min + (max - min) / 2\<close> is \<open>-Infinity + Infinity\<close>, that is \<open>NaN\<close>; the first test
  fails for every index, and \<open>getAlpha(5, min, max)\<close> returns \<open>1\<close>.
\<close>

theorem getAlpha_returns_1:
  "NInf < Fin 0
   \<and> getAlpha_return (Fin 5) NInf (Fin 0) = Return_1
   \<and> getAlpha (Fin 5) NInf (Fin 0) = Fin 1"
  by (simp add: getAlpha_return_def getAlpha_def minus_jsnum_def)

subsection \<open>Masking\<close>

text \<open>
  Under the notebook's parameters the \<open>default\<close> output is a function of \<open>B04\<close>,
  \<open>B05\<close> and \<open>B06\<close> alone: the bands that only the water and cloud tests and the
  natural-colour layer read have no influence on it.
\<close>

lemma default_output_bands:
  "default' (evaluatePixel cb pI (s\<lparr> B02 := b2, B03 := b3, B07 := b7, B08 := b8, B8A := b8a,
      B09 := b9, B11 := b11 \<rparr>)) = default' (evaluatePixel cb pI s)"
  by (simp add: evaluatePixel_PARAMS getIndices_def del: getColors.simps)

text \<open>
  C1. The claim is that a sample which fails the NDWI test or the pure-water test gets the
  background layer as its \<open>default\<close> output. \<open>land_pixel\<close> fails both tests (its NDWI is
  \<open>-2/3\<close>), and \<open>isWater\<close> called with the sample, its indices and the selected indices
  says it is not water. As \<open>getValue\<close> calls it, \<open>isWater\<close> says it is water, and the
  \<open>default\<close> output is the sediment colour \<open>[0.396, 0.263, 0.129]\<close>, not the background
  \<open>[0.125, 0.2, 0.1]\<close>.
\<close>

theorem water_mask_not_applied:
  "ndwi (watermask (getIndices land_pixel)) < waterMax PARAMS
   \<and> \<not> isPureWater (SampleObj land_pixel)
   \<and> \<not> isWater (SampleObj land_pixel) (WatermaskObj (watermask (getIndices land_pixel)))
         (Strings (watermaskIndices PARAMS)) (waterMax PARAMS) (Some (cloudMax PARAMS))
   \<and> getValue_isWater PARAMS (getIndices land_pixel)
   \<and> default' (evaluatePixel colorBlend parseInt land_pixel)
       = Some [Fin 0.396, Fin 0.263, Fin 0.129]
   \<and> getBackground parseInt (background PARAMS) (natural (getIndices land_pixel))
         (backgroundOpacity PARAMS)
       = [Fin 0.125, Fin 0.2, Fin 0.1]"
proof -
  have w: "getValue_isWater PARAMS (getIndices land_pixel)"
    by (rule getValue_isWater_PARAMS)
  have rest: "ndwi (watermask (getIndices land_pixel)) < waterMax PARAMS
   \<and> \<not> isPureWater (SampleObj land_pixel)
   \<and> \<not> isWater (SampleObj land_pixel) (WatermaskObj (watermask (getIndices land_pixel)))
         (Strings (watermaskIndices PARAMS)) (waterMax PARAMS) (Some (cloudMax PARAMS))
   \<and> default' (evaluatePixel colorBlend parseInt land_pixel)
       = Some [Fin 0.396, Fin 0.263, Fin 0.129]
   \<and> getBackground parseInt (background PARAMS) (natural (getIndices land_pixel))
         (backgroundOpacity PARAMS)
       = [Fin 0.125, Fin 0.2, Fin 0.1]"
    by (simp add: pixel_eval land_pixel_def isPureWater_def getBackground_def getEval_def
        strict_eq_def)
  from w rest show ?thesis
    by simp
qed

lemma bRatio_above_1: "Fin 1 < (b - Fin 0.175) / Fin (0.39 - 0.175) \<longleftrightarrow> Fin 0.39 < b"
  by (cases b) (simp_all add: minus_jsnum_def field_simps)

lemma bRatio_above_0: "Fin 0 < (b - Fin 0.175) / Fin (0.39 - 0.175) \<longleftrightarrow> Fin 0.175 < b"
  by (cases b) (simp_all add: minus_jsnum_def field_simps)

lemma isWater_loop_iff:
  "isWater_loop sample available selected waterMax' cloudMax' =
     ((''ndwi'' \<in> set selected \<longrightarrow> \<not> toNumber (ndwi_of available) < waterMax')
      \<and> (''hol'' \<in> set selected \<longrightarrow> isPureWater sample)
      \<and> (''bcy'' \<in> set selected \<longrightarrow> \<not> isCloud sample cloudMax'))"
  by (induction selected) (auto simp add: getEval_def)

lemma isWater_iff:
  "isWater sample available (Strings selected) waterMax' cloudMax' =
     ((''ndwi'' \<in> set selected \<longrightarrow> \<not> toNumber (ndwi_of available) < waterMax')
      \<and> (''hol'' \<in> set selected \<longrightarrow> isPureWater sample)
      \<and> (''bcy'' \<in> set selected \<longrightarrow> \<not> isCloud sample cloudMax'))"
  by (cases selected) (simp_all add: strict_eq_def isWater_loop_iff del: isWater_loop.simps)

lemma getValue_cloudMax:
  "getValue cb pI (PARAMS\<lparr> cloudMax := c \<rparr>) s = getValue cb pI PARAMS s"
  by (simp add: getValue_def Let_def PARAMS_def getValue_isWater_def strict_eq_def
      del: getColors.simps)

text \<open>
  C2, as the script has it. \<open>isCloud\<close> is the Braaten-Cohen-Yang test (\<open>B02 > 0.39\<close>, or
  \<open>B02 > 0.175\<close> and \<open>(B04-B06)/(B04+B06)\<close> above the limit). For every array of
  selected indices, \<open>isWater\<close> is true exactly when each selected test passes: NDWI not
  below \<open>waterMax\<close> if \<open>'ndwi'\<close> is selected, the pure-water test if \<open>'hol'\<close> is, and
  not \<open>isCloud\<close> if \<open>'bcy'\<close> is. So whenever \<open>'bcy'\<close> is among the selected indices a
  sample that \<open>isCloud\<close> detects is not water, and whenever it is not among them the
  answer is the same for every \<open>cloudMax\<close>. The notebook's parameters select \<open>'ndwi'\<close>
  and \<open>'hol'\<close> and not \<open>'bcy'\<close>. Under them a sample that passes the two selected tests
  gets the chlorophyll and sediment colours as its \<open>default\<close> output whether or not
  \<open>isCloud\<close> detects it, and what \<open>getValue\<close> returns is the same for every value of
  \<open>cloudMax\<close>: the test of \<open>isCloud\<close> is not one of the maskings of this visualization.
\<close>

theorem cloud_test_only_for_bcy:
  "isCloud (SampleObj s) limit =
     (Fin 0.39 < B02 s
      \<or> (Fin 0.175 < B02 s \<and> toNumber limit < (B04 s - B06 s) / (B04 s + B06 s)))
   \<and> isWater sample available (Strings selected) waterMax' cloudMax' =
       ((''ndwi'' \<in> set selected \<longrightarrow> \<not> toNumber (ndwi_of available) < waterMax')
        \<and> (''hol'' \<in> set selected \<longrightarrow> isPureWater sample)
        \<and> (''bcy'' \<in> set selected \<longrightarrow> \<not> isCloud sample cloudMax'))
   \<and> (''bcy'' \<in> set selected \<and> isCloud sample cloudMax'
        \<longrightarrow> \<not> isWater sample available (Strings selected) waterMax' cloudMax')
   \<and> (''bcy'' \<notin> set selected
        \<longrightarrow> isWater sample available (Strings selected) waterMax' cloudMax'
            = isWater sample available (Strings selected) waterMax' limit)
   \<and> ''bcy'' \<notin> set (watermaskIndices PARAMS)
   \<and> isWater sample available (Strings (watermaskIndices PARAMS)) waterMax' cloudMax'
       = (\<not> toNumber (ndwi_of available) < waterMax' \<and> isPureWater sample)
   \<and> (isWater (SampleObj s) (WatermaskObj (watermask (getIndices s)))
          (Strings (watermaskIndices PARAMS)) (waterMax PARAMS) (Some (cloudMax PARAMS))
        \<longrightarrow> default' (evaluatePixel cb pI s) =
              Some (blend (getColors cb Tss (B05 s) (tssMin PARAMS) (tssMax PARAMS))
                      (getColors cb Chl (mci (chl (getIndices s))) (chlMin PARAMS) (chlMax PARAMS))
                      (getAlpha (B05 s) (tssMin PARAMS) (tssMax PARAMS))
                      (Fin 100 - getAlpha (B05 s) (tssMin PARAMS) (tssMax PARAMS))))
   \<and> getValue cb pI (PARAMS\<lparr> cloudMax := c \<rparr>) s = getValue cb pI PARAMS s"
proof -
  have a: "isCloud (SampleObj s) limit =
     (Fin 0.39 < B02 s
      \<or> (Fin 0.175 < B02 s \<and> toNumber limit < (B04 s - B06 s) / (B04 s + B06 s)))"
    by (simp only: isCloud_def Let_def band.simps toNumber.simps bRatio_above_1 bRatio_above_0)
  have p: "''bcy'' \<notin> set (watermaskIndices PARAMS)"
    by (simp add: PARAMS_def)
  have c: "isWater sample available (Strings (watermaskIndices PARAMS)) waterMax' cloudMax'
       = (\<not> toNumber (ndwi_of available) < waterMax' \<and> isPureWater sample)"
    unfolding isWater_iff by (simp add: PARAMS_def)
  have e: "default' (evaluatePixel cb pI s) =
              Some (blend (getColors cb Tss (B05 s) (tssMin PARAMS) (tssMax PARAMS))
                      (getColors cb Chl (mci (chl (getIndices s))) (chlMin PARAMS) (chlMax PARAMS))
                      (getAlpha (B05 s) (tssMin PARAMS) (tssMax PARAMS))
                      (Fin 100 - getAlpha (B05 s) (tssMin PARAMS) (tssMax PARAMS)))"
    by (simp add: evaluatePixel_PARAMS)
  show ?thesis
    unfolding isWater_iff using a p c e getValue_cloudMax [of cb pI c s]
    by (simp only: isWater_iff) blast
qed

theorem cloud_test_only_for_bcy_witness:
  "isCloud (SampleObj cloud_pixel) (Some (cloudMax PARAMS))
   \<and> \<not> isWater (SampleObj cloud_pixel) (WatermaskObj (watermask (getIndices cloud_pixel)))
         (Strings [''ndwi'', ''hol'', ''bcy'']) (waterMax PARAMS) (Some (cloudMax PARAMS))
   \<and> isWater (SampleObj cloud_pixel) (WatermaskObj (watermask (getIndices cloud_pixel)))
         (Strings (watermaskIndices PARAMS)) (waterMax PARAMS) (Some (cloudMax PARAMS))
   \<and> default' (evaluatePixel colorBlend parseInt cloud_pixel)
       = Some [Fin 0.396, Fin 0.263, Fin 0.129]"
proof -
  have cloud: "isCloud (SampleObj cloud_pixel) (Some (cloudMax PARAMS))"
    by (simp add: cloud_pixel_def PARAMS_def isCloud_def minus_jsnum_def)
  have water:
    "\<not> toNumber (ndwi_of (WatermaskObj (watermask (getIndices cloud_pixel)))) < waterMax PARAMS
     \<and> isPureWater (SampleObj cloud_pixel)"
    by (simp add: cloud_pixel_def PARAMS_def getIndices_def isPureWater_def minus_jsnum_def)
  have rgb: "blend (getColors colorBlend Tss (B05 cloud_pixel) (tssMin PARAMS) (tssMax PARAMS))
      (getColors colorBlend Chl (mci (chl (getIndices cloud_pixel))) (chlMin PARAMS) (chlMax PARAMS))
      (getAlpha (B05 cloud_pixel) (tssMin PARAMS) (tssMax PARAMS))
      (Fin 100 - getAlpha (B05 cloud_pixel) (tssMin PARAMS) (tssMax PARAMS))
      = [Fin 0.396, Fin 0.263, Fin 0.129]"
    by (simp add: PARAMS_def getIndices_def getAlpha_def blend_def minus_jsnum_def at_index_def
        interpolate_def cloud_pixel_def)
  have m: "''bcy'' \<in> set [''ndwi'', ''hol'', ''bcy'']"
    by simp
  note T = cloud_test_only_for_bcy [of cloud_pixel "Some (cloudMax PARAMS)" "SampleObj cloud_pixel"
        "WatermaskObj (watermask (getIndices cloud_pixel))" "[''ndwi'', ''hol'', ''bcy'']"
        "waterMax PARAMS" "Some (cloudMax PARAMS)" colorBlend parseInt "Fin 0.02"]
  from T m cloud
  have A: "\<not> isWater (SampleObj cloud_pixel) (WatermaskObj (watermask (getIndices cloud_pixel)))
         (Strings [''ndwi'', ''hol'', ''bcy'']) (waterMax PARAMS) (Some (cloudMax PARAMS))"
    by blast
  from T water
  have B: "isWater (SampleObj cloud_pixel) (WatermaskObj (watermask (getIndices cloud_pixel)))
         (Strings (watermaskIndices PARAMS)) (waterMax PARAMS) (Some (cloudMax PARAMS))"
    by blast
  from T B rgb
  have C: "default' (evaluatePixel colorBlend parseInt cloud_pixel)
       = Some [Fin 0.396, Fin 0.263, Fin 0.129]"
    by presburger
  from cloud A B C show ?thesis
    by blast
qed

text \<open>
  C2, as the claim has it, fails at \<open>cloud_pixel\<close>: \<open>isCloud\<close> detects it
  (\<open>B02 = 0.5 > 0.39\<close>), it passes the two tests that the parameters select, and its
  \<open>default\<close> output is the sediment colour and not the background layer.
\<close>

theorem cloud_pixel_rendered:
  "isCloud (SampleObj cloud_pixel) (Some (cloudMax PARAMS))
   \<and> Fin 0.39 < B02 cloud_pixel
   \<and> default' (evaluatePixel colorBlend parseInt cloud_pixel)
       = Some [Fin 0.396, Fin 0.263, Fin 0.129]
   \<and> getBackground parseInt (background PARAMS) (natural (getIndices cloud_pixel))
         (backgroundOpacity PARAMS)
       = [Fin 0.5, Fin 0.75, Fin 1.25]
   \<and> default' (evaluatePixel colorBlend parseInt cloud_pixel)
       \<noteq> Some (getBackground parseInt (background PARAMS) (natural (getIndices cloud_pixel))
                 (backgroundOpacity PARAMS))"
  by (simp add: pixel_eval cloud_pixel_def isCloud_def getBackground_def getEval_def)

section \<open>What the notebook sends and how it fails\<close>

lemma request_UWQV_value:
  "request_UWQV sdk client_id client_secret =
     [(''evalscript'', Evalscript Custom_script),
      (''input_data'',
         Input_data
           [\<lparr> data_collection =
                 Define_from SENTINEL2_L2A ''s2l2a'' ''https://sh.dataspace.copernicus.eu'',
               time_interval = (''2023-09-01'', ''2023-09-30''),
               mosaicking_order = LEAST_CC \<rparr>]),
      (''responses'',
         Responses
           [\<lparr> output_id = ''default'', response_format = TIFF \<rparr>,
            \<lparr> output_id = ''chlorophyllIndex'', response_format = TIFF \<rparr>,
            \<lparr> output_id = ''sedimentIndex'', response_format = TIFF \<rparr>]),
      (''bbox'',
         Bbox (transform sdk (BBox (119.7301, 30.919636, 120.684429, 31.661304) WGS84) 3035)),
      (''resolution'', Resolution (100, 100)),
      (''config'', Config (cell_config sdk client_id client_secret)),
      (''data_folder'', Data_folder ''./data'')]"
  by (simp add: request_UWQV_def cell_request_def cell_area_def cell_config_def)

lemma notebook_world:
  "snd (notebook sdk client_id client_secret w)
     = snd (get_data sdk (request_UWQV sdk client_id client_secret) True w)"
  by (simp add: notebook_def split: prod.splits sum.splits list.splits)

text \<open>
  C7, as the notebook has it. The request bundles the evaluator script, one Sentinel-2 L2A
  input (defined from \<open>s2l2a\<close> at the configured service) with the time interval
  2023-09-01 to 2023-09-30 and least-cloud-coverage mosaicking, three TIFF responses named
  \<open>default\<close>, \<open>chlorophyllIndex\<close> and \<open>sedimentIndex\<close>, the Taihu bounding box
  transformed to CRS 3035, the resolution \<open>(100, 100)\<close>, the configuration with the
  credentials, and the data folder \<open>./data\<close>. It is a value, built once; the state that the
  notebook leaves behind is the state after one call of \<open>get_data\<close> on that request.
\<close>

theorem request_UWQV_contents:
  "request_UWQV sdk client_id client_secret =
     [(''evalscript'', Evalscript Custom_script),
      (''input_data'',
         Input_data
           [\<lparr> data_collection =
                 Define_from SENTINEL2_L2A ''s2l2a'' ''https://sh.dataspace.copernicus.eu'',
               time_interval = (''2023-09-01'', ''2023-09-30''),
               mosaicking_order = LEAST_CC \<rparr>]),
      (''responses'',
         Responses
           [\<lparr> output_id = ''default'', response_format = TIFF \<rparr>,
            \<lparr> output_id = ''chlorophyllIndex'', response_format = TIFF \<rparr>,
            \<lparr> output_id = ''sedimentIndex'', response_format = TIFF \<rparr>]),
      (''bbox'',
         Bbox (transform sdk (BBox (119.7301, 30.919636, 120.684429, 31.661304) WGS84) 3035)),
      (''resolution'', Resolution (100, 100)),
      (''config'',
         Config ((SHConfig sdk)
           \<lparr> sh_client_id := client_id,
             sh_client_secret := client_secret,
             sh_token_url :=
               ''https://identity.dataspace.copernicus.eu/auth/realms/CDSE/protocol/openid-connect/token'',
             sh_base_url := ''https://sh.dataspace.copernicus.eu'' \<rparr>)),
      (''data_folder'', Data_folder ''./data'')]
   \<and> snd (notebook sdk client_id client_secret w)
       = snd (get_data sdk (request_UWQV sdk client_id client_secret) True w)"
  by (simp add: request_UWQV_value notebook_world cell_config_def)

theorem request_UWQV_contents_witness:
  "map fst (request_UWQV answering_sdk ''id'' ''secret'') =
     [''evalscript'', ''input_data'', ''responses'', ''bbox'', ''resolution'', ''config'',
      ''data_folder'']
   \<and> map_of (request_UWQV answering_sdk ''id'' ''secret'') ''bbox''
       = Some (Bbox (BBox (119.7301, 30.919636, 120.684429, 31.661304) (EPSG 3035)))
   \<and> snd (notebook answering_sdk ''id'' ''secret'' 0) = 1"
  using request_UWQV_contents [of answering_sdk "''id''" "''secret''" 0]
  by (simp add: answering_sdk_def)

text \<open>
  C7, as the claim has it, lists six components and says the request bundles exactly
  these. The request has a seventh, the data folder.
\<close>

theorem request_has_data_folder:
  "map fst (request_UWQV answering_sdk ''id'' ''secret'')
     \<noteq> [''evalscript'', ''input_data'', ''responses'', ''bbox'', ''resolution'', ''config'']
   \<and> map_of (request_UWQV answering_sdk ''id'' ''secret'') ''data_folder''
       = Some (Data_folder ''./data'')"
  by (simp add: request_UWQV_value)

text \<open>
  C8. The notebook has no exception handler: an exception that \<open>get_data\<close> raises is the
  notebook's outcome, unchanged, and the state left behind is the one that this single
  failed call left: nothing is retried and nothing is recovered.
\<close>

theorem get_data_exception_propagates:
  "get_data sdk (request_UWQV sdk client_id client_secret) True w = (Inl e, w') \<Longrightarrow>
   notebook sdk client_id client_secret w = (Inl (Raised e), w')"
  by (simp add: notebook_def)

theorem get_data_exception_propagates_witness:
  "get_data failing_sdk (request_UWQV failing_sdk ''id'' ''secret'') True 0
     = (Inl ''quota exceeded'', 1)
   \<and> notebook failing_sdk ''id'' ''secret'' 0 = (Inl (Raised ''quota exceeded''), 1)"
  using get_data_exception_propagates
    [of failing_sdk "''id''" "''secret''" 0 "''quota exceeded''" 1]
  by (simp add: failing_sdk_def)

section \<open>The three outputs\<close>

text \<open>
  C10. Under the notebook's parameters, and with \<open>isWater\<close> called as \<open>getValue\<close> calls
  it, \<open>getValue\<close> returns for every sample the object with its three fields defined (the
  two early returns of a bare layer are never taken), so \<open>evaluatePixel\<close> has a value for
  each of the outputs: \<open>default\<close> with as many bands as the sediment colour (three with
  the platform's \<open>colorBlend\<close>), \<open>chlorophyllIndex\<close> and \<open>sedimentIndex\<close> with one
  band each. These are the outputs that \<open>setup\<close> declares and that the notebook requests.
\<close>

theorem getValue_returns_all_fields:
  "\<exists>rgb c d.
     getValue cb pI PARAMS s = Value \<lparr> rgb_value = rgb, chl_index = Some c, sed_index = Some d \<rparr>
     \<and> evaluatePixel cb pI s =
         \<lparr> default' = Some rgb, chlorophyllIndex = [Some c], sedimentIndex = [Some d] \<rparr>
     \<and> length rgb = length (getColors cb Tss (B05 s) (tssMin PARAMS) (tssMax PARAMS))
     \<and> length (chlorophyllIndex (evaluatePixel cb pI s)) = 1
     \<and> length (sedimentIndex (evaluatePixel cb pI s)) = 1
     \<and> length (getColors colorBlend Tss (B05 s) (tssMin PARAMS) (tssMax PARAMS)) = 3
     \<and> setup_output = [(''default'', 3), (''chlorophyllIndex'', 1), (''sedimentIndex'', 1)]
     \<and> map_of (request_UWQV sdk client_id client_secret) ''responses''
         = Some (Responses (map (\<lambda>(name, bands). \<lparr> output_id = name, response_format = TIFF \<rparr>)
                              setup_output))"
  by (simp add: getValue_PARAMS evaluatePixel_PARAMS blend_def setup_output_def
      request_UWQV_value interpolate_def del: getColors.simps)
    (simp add: interpolate_def)

theorem getValue_returns_all_fields_witness:
  "\<exists>rgb c d.
     getValue colorBlend parseInt PARAMS land_pixel =
       Value \<lparr> rgb_value = rgb, chl_index = Some c, sed_index = Some d \<rparr>
     \<and> length rgb = 3"
  using getValue_returns_all_fields [of colorBlend parseInt land_pixel]
  by metis

end
